theory Spec2Isabelle
  imports Main
begin

section \<open>Strings and keyword patterns\<close>

text \<open>
  Text is a list of 8-bit characters, read as the code units U+0000 to U+00FF of a
  JavaScript string. \<open>toLowerCase\<close> and the folding of a case-insensitive pattern
  (flag \<open>i\<close>, no flag \<open>u\<close>) are written out for that range.
\<close>

definition toLowerCase_char :: "char \<Rightarrow> char" where
  "toLowerCase_char c =
     (let n = (of_char c :: nat)
      in if (65 \<le> n \<and> n \<le> 90) \<or> (192 \<le> n \<and> n \<le> 222 \<and> n \<noteq> 215)
         then char_of (n + 32) else c)"

definition toLowerCase :: "string \<Rightarrow> string" where
  "toLowerCase s = map toLowerCase_char s"

text \<open>
  The canonical form a case-insensitive pattern compares characters in: the code unit of
  the upper-case form, except that a character from U+0080 on never folds into ASCII and
  a character whose upper-case form is longer than one code unit stays as it is.
\<close>

definition Canonicalize :: "char \<Rightarrow> nat" where
  "Canonicalize c =
     (let n = (of_char c :: nat)
      in if 97 \<le> n \<and> n \<le> 122 then n - 32
         else if 224 \<le> n \<and> n \<le> 254 \<and> n \<noteq> 247 then n - 32
         else if n = 255 then 376
         else if n = 181 then 924
         else n)"

text \<open>A literal keyword matches at the head of the text, character by character.\<close>

fun matches_here :: "string \<Rightarrow> string \<Rightarrow> bool" where
  "matches_here [] ts = True"
| "matches_here (p # ps) [] = False"
| "matches_here (p # ps) (t # ts) = (Canonicalize p = Canonicalize t \<and> matches_here ps ts)"

text \<open>The keyword occurs somewhere in the text: the pattern is not anchored.\<close>

fun occurs :: "string \<Rightarrow> string \<Rightarrow> bool" where
  "occurs p [] = matches_here p []"
| "occurs p (t # ts) = (matches_here p (t # ts) \<or> occurs p ts)"

text \<open>
  \<open>text.match(/k1|k2|...|kn/i)\<close> used as a condition: the result is non-null when one
  of the alternatives occurs in the text.
\<close>

definition match_any :: "string list \<Rightarrow> string \<Rightarrow> bool" where
  "match_any ks txt = list_ex (\<lambda>k. occurs k txt) ks"

text \<open>
  \<open>a || b\<close> on a value that is a string or undefined: the left operand when it is a
  non-empty string, the right one otherwise.
\<close>

definition or_else :: "string option \<Rightarrow> string \<Rightarrow> string" where
  "or_else a b = (case a of None \<Rightarrow> b | Some s \<Rightarrow> if s = [] then b else s)"

section \<open>The classifier\<close>

definition it_keywords :: "string list" where
  "it_keywords = [''computer'', ''laptop'', ''software'', ''network'', ''internet'', ''wifi'',
     ''password'', ''email'', ''printer'', ''it'', ''technical'', ''system'']"

definition facilities_keywords :: "string list" where
  "facilities_keywords = [''clean'', ''room'', ''office'', ''repair'', ''maintenance'', ''hvac'',
     ''air condition'', ''heating'', ''ventilation'', ''building'']"

definition equipment_keywords :: "string list" where
  "equipment_keywords = [''desk'', ''chair'', ''furniture'', ''equipment'', ''table'',
     ''cabinet'', ''storage'', ''supplies'']"

definition safety_keywords :: "string list" where
  "safety_keywords = [''safety'', ''fire'', ''emergency'', ''hazard'', ''accident'', ''injury'',
     ''security'', ''alarm'', ''evacuation'']"

definition hr_keywords :: "string list" where
  "hr_keywords = [''leave'', ''vacation'', ''payroll'', ''benefits'', ''training'', ''hr'',
     ''human resource'', ''staff'', ''employee'', ''recruitment'']"

definition categorizeRequest :: "string \<Rightarrow> string" where
  "categorizeRequest txt =
     (if match_any it_keywords txt then ''IT and Technical Support''
      else if match_any facilities_keywords txt then ''Facilities and Maintenance''
      else if match_any equipment_keywords txt then ''Equipment and Furniture''
      else if match_any safety_keywords txt then ''Safety and Fire Protection''
      else if match_any hr_keywords txt then ''HR and Staff Matters''
      else ''Other'')"

definition critical_keywords :: "string list" where
  "critical_keywords = [''urgent'', ''emergency'', ''critical'', ''immediate'', ''asap'',
     ''broken'', ''not working'', ''down'', ''fire'', ''safety'', ''injury'']"

definition high_keywords :: "string list" where
  "high_keywords = [''important'', ''high priority'', ''soon'', ''needed'', ''blocking'',
     ''cannot work'']"

definition low_keywords :: "string list" where
  "low_keywords = [''low priority'', ''when possible'', ''not urgent'', ''minor'', ''small'']"

definition determinePriority :: "string \<Rightarrow> string" where
  "determinePriority txt =
     (if match_any critical_keywords txt then ''Critical''
      else if match_any high_keywords txt then ''High''
      else if match_any low_keywords txt then ''Low''
      else ''Medium'')"

definition responses :: "string \<Rightarrow> (string \<times> string) list" where
  \<open>responses ttl =
     [(''IT and Technical Support'',
         ''Your request regarding "'' @ ttl @ ''" has been received and forwarded to the IT and Technical Support Division. Our team will review your request and contact you shortly.''),
      (''Facilities and Maintenance'',
         ''Your request regarding "'' @ ttl @ ''" has been received and forwarded to the Facilities and Maintenance Division. A technician will be assigned to address your concern.''),
      (''Equipment and Furniture'',
         ''Your request regarding "'' @ ttl @ ''" has been received and forwarded to the Equipment and Furniture Division. We will process your request and notify you of the next steps.''),
      (''Safety and Fire Protection'',
         ''Your request regarding "'' @ ttl @ ''" has been received and forwarded to the Safety and Fire Protection Division. This matter will be treated with high priority.''),
      (''HR and Staff Matters'',
         ''Your request regarding "'' @ ttl @ ''" has been received and forwarded to the Human Resources Division. An HR representative will contact you to discuss your request.''),
      (''Other'',
         ''Your request regarding "'' @ ttl @ ''" has been received. We will review the details and route it to the appropriate department for handling.'')]\<close>

text \<open>
  \<open>responses[category] || responses['Other']\<close>. The function is private to the module
  and only receives a result of \<open>categorizeRequest\<close>, so the key is one of the six of
  the table or the lookup is undefined.
\<close>

definition generateResponse :: "string \<Rightarrow> string \<Rightarrow> string" where
  "generateResponse ttl cat =
     or_else (map_of (responses ttl) cat) (or_else (map_of (responses ttl) ''Other'') [])"

definition units :: "(string \<times> string) list" where
  "units =
     [(''IT and Technical Support'', ''IT Division''),
      (''Facilities and Maintenance'', ''Technical Division''),
      (''Equipment and Furniture'', ''Procurement Division''),
      (''Safety and Fire Protection'', ''Safety Division''),
      (''HR and Staff Matters'', ''HR Division''),
      (''Other'', ''General Support'')]"

definition getAssignedUnit :: "string \<Rightarrow> string" where
  "getAssignedUnit cat = or_else (map_of units cat) ''General Support''"

record analysis =
  category :: string
  priority :: string
  aiResponse :: string
  assignedUnit :: string

definition analyzeRequest :: "string \<Rightarrow> string \<Rightarrow> analysis" where
  "analyzeRequest ttl descr =
     (let txt = toLowerCase (ttl @ '' '' @ descr);
          cat = categorizeRequest txt;
          pri = determinePriority txt;
          resp = generateResponse ttl cat;
          unit = getAssignedUnit cat
      in \<lparr>category = cat, priority = pri, aiResponse = resp, assignedUnit = unit\<rparr>)"

text \<open>The option lists of the creation form (\<open>CATEGORIES\<close>, \<open>PRIORITIES\<close>).\<close>

definition CATEGORIES :: "string list" where
  "CATEGORIES = [''IT and Technical Support'', ''Facilities and Maintenance'',
     ''Equipment and Furniture'', ''Safety and Fire Protection'', ''HR and Staff Matters'',
     ''Other'']"

definition PRIORITIES :: "string list" where
  "PRIORITIES = [''Critical'', ''High'', ''Medium'', ''Low'']"

text \<open>
  The rule order of the classifier as the specification words it: an ordered list of
  keyword sets with their categories, the first matching one wins, \<open>Other\<close> otherwise.
\<close>

definition spec_category_rules :: "(string list \<times> string) list" where
  "spec_category_rules =
     [(it_keywords, ''IT and Technical Support''),
      (facilities_keywords, ''Facilities and Maintenance''),
      (equipment_keywords, ''Equipment and Furniture''),
      (safety_keywords, ''Safety and Fire Protection''),
      (hr_keywords, ''HR and Staff Matters'')]"

fun spec_first_match :: "(string list \<times> string) list \<Rightarrow> string \<Rightarrow> string \<Rightarrow> string" where
  "spec_first_match [] fallback txt = fallback"
| "spec_first_match ((ks, c) # rules) fallback txt =
     (if match_any ks txt then c else spec_first_match rules fallback txt)"

text \<open>Unmatched text: no keyword of any category rule, or of any priority rule, occurs
  in it.\<close>

definition no_category_keyword :: "string \<Rightarrow> bool" where
  "no_category_keyword txt =
     (\<not> match_any it_keywords txt \<and> \<not> match_any facilities_keywords txt
      \<and> \<not> match_any equipment_keywords txt \<and> \<not> match_any safety_keywords txt
      \<and> \<not> match_any hr_keywords txt)"

definition no_priority_keyword :: "string \<Rightarrow> bool" where
  "no_priority_keyword txt =
     (\<not> match_any critical_keywords txt \<and> \<not> match_any high_keywords txt
      \<and> \<not> match_any low_keywords txt)"

text \<open>White space of the 8-bit range: tab, line feed, vertical tab, form feed, carriage
  return, space and no-break space.\<close>

definition is_whitespace :: "char \<Rightarrow> bool" where
  "is_whitespace c = ((of_char c :: nat) \<in> {9, 10, 11, 12, 13, 32, 160})"

definition starts_with_letter :: "string \<Rightarrow> bool" where
  "starts_with_letter k =
     (case k of [] \<Rightarrow> False | p # ps \<Rightarrow> 65 \<le> Canonicalize p \<and> Canonicalize p \<le> 90)"

section \<open>The schema\<close>

type_synonym uuid = string
type_synonym timestamptz = nat

text \<open>
  A row is what SQL sees: every column may hold NULL (\<open>None\<close>), and the \<open>NOT NULL\<close>
  declarations are constraints that a statement has to pass.
\<close>

record request =
  r_id :: "uuid option"
  r_title :: "string option"
  r_description :: "string option"
  r_category :: "string option"
  r_priority :: "string option"
  r_status :: "string option"
  r_submitter_id :: "uuid option"
  r_submitter_name :: "string option"
  r_assigned_unit :: "string option"
  r_assigned_handler :: "string option"
  r_ai_response :: "string option"
  r_created_at :: "timestamptz option"
  r_updated_at :: "timestamptz option"
  r_resolved_at :: "timestamptz option"
  r_deadline :: "timestamptz option"

record request_comment =
  c_id :: "uuid option"
  c_request_id :: "uuid option"
  c_user_id :: "uuid option"
  c_user_name :: "string option"
  c_comment :: "string option"
  c_created_at :: "timestamptz option"

record user_role =
  ur_id :: "uuid option"
  ur_user_id :: "uuid option"
  ur_role :: "string option"
  ur_created_at :: "timestamptz option"

text \<open>The three tables, and the identities of \<open>auth.users\<close> that the foreign keys
  refer to.\<close>

record database =
  auth_users :: "uuid list"
  requests :: "request list"
  request_comments :: "request_comment list"
  user_roles :: "user_role list"

datatype db_error = RlsViolation | NotNullViolation | CheckViolation | UniqueViolation
  | ForeignKeyViolation

text \<open>A comparison in a policy or in an \<open>IF\<close> counts only when it is true; with a NULL
  operand it is not.\<close>

definition sql_eq :: "'a option \<Rightarrow> 'a option \<Rightarrow> bool" where
  "sql_eq a b = (a \<noteq> None \<and> a = b)"


text \<open>A column of an \<open>INSERT\<close> or of the \<open>SET\<close> list of an \<open>UPDATE\<close>: left out, NULL,
  or a value.\<close>

datatype 'a col = Omitted | Null | Val 'a

definition insert_col :: "'a option \<Rightarrow> 'a col \<Rightarrow> 'a option" where
  "insert_col dflt c = (case c of Omitted \<Rightarrow> dflt | Null \<Rightarrow> None | Val v \<Rightarrow> Some v)"

definition set_col :: "'a col \<Rightarrow> 'a option \<Rightarrow> 'a option" where
  "set_col c old = (case c of Omitted \<Rightarrow> old | Null \<Rightarrow> None | Val v \<Rightarrow> Some v)"

section \<open>Row level security\<close>

datatype command = SELECT | INSERT | UPDATE | DELETE

text \<open>
  Row level security is enabled on the three tables and every policy is permissive and
  granted to \<open>authenticated\<close>: a row passes when one of the policies of the command
  holds for it, and no row passes a command that has no policy. The caller is an
  authenticated user, \<open>uid\<close> is its \<open>auth.uid()\<close>.
\<close>

definition permitted :: "(database \<Rightarrow> uuid \<Rightarrow> 'row \<Rightarrow> bool) list \<Rightarrow> database \<Rightarrow> uuid \<Rightarrow> 'row \<Rightarrow> bool" where
  "permitted ps db uid row = list_ex (\<lambda>p. p db uid row) ps"

subsection \<open>user_roles\<close>

definition Users_can_view_own_roles :: "database \<Rightarrow> uuid \<Rightarrow> user_role \<Rightarrow> bool" where
  "Users_can_view_own_roles db uid ur = sql_eq (Some uid) (ur_user_id ur)"

definition Users_can_insert_own_role :: "database \<Rightarrow> uuid \<Rightarrow> user_role \<Rightarrow> bool" where
  "Users_can_insert_own_role db uid ur = sql_eq (Some uid) (ur_user_id ur)"

definition user_roles_using :: "command \<Rightarrow> (database \<Rightarrow> uuid \<Rightarrow> user_role \<Rightarrow> bool) list" where
  "user_roles_using cmd = (case cmd of SELECT \<Rightarrow> [Users_can_view_own_roles] | _ \<Rightarrow> [])"

definition user_roles_with_check :: "command \<Rightarrow> (database \<Rightarrow> uuid \<Rightarrow> user_role \<Rightarrow> bool) list" where
  "user_roles_with_check cmd = (case cmd of INSERT \<Rightarrow> [Users_can_insert_own_role] | _ \<Rightarrow> [])"

definition select_user_roles :: "database \<Rightarrow> uuid \<Rightarrow> user_role list" where
  "select_user_roles db uid = filter (permitted (user_roles_using SELECT) db uid) (user_roles db)"

text \<open>
  The subquery of the handler policies, run as the caller and so over the role rows the
  caller may select:
  \<open>EXISTS (SELECT 1 FROM user_roles WHERE user_roles.user_id = auth.uid()
  AND user_roles.role = 'handler')\<close>.
\<close>

definition handler_exists :: "database \<Rightarrow> uuid \<Rightarrow> bool" where
  "handler_exists db uid =
     list_ex (\<lambda>ur. sql_eq (ur_user_id ur) (Some uid) \<and> sql_eq (ur_role ur) (Some ''handler''))
       (select_user_roles db uid)"

subsection \<open>requests\<close>

definition Users_can_create_requests :: "database \<Rightarrow> uuid \<Rightarrow> request \<Rightarrow> bool" where
  "Users_can_create_requests db uid r = sql_eq (Some uid) (r_submitter_id r)"

definition Submitters_can_view_own_requests :: "database \<Rightarrow> uuid \<Rightarrow> request \<Rightarrow> bool" where
  "Submitters_can_view_own_requests db uid r = sql_eq (Some uid) (r_submitter_id r)"

definition Handlers_can_view_all_requests :: "database \<Rightarrow> uuid \<Rightarrow> request \<Rightarrow> bool" where
  "Handlers_can_view_all_requests db uid r = handler_exists db uid"

definition Handlers_can_update_requests_using :: "database \<Rightarrow> uuid \<Rightarrow> request \<Rightarrow> bool" where
  "Handlers_can_update_requests_using db uid r = handler_exists db uid"

definition Handlers_can_update_requests_with_check :: "database \<Rightarrow> uuid \<Rightarrow> request \<Rightarrow> bool" where
  "Handlers_can_update_requests_with_check db uid r = handler_exists db uid"

definition Handlers_can_delete_requests :: "database \<Rightarrow> uuid \<Rightarrow> request \<Rightarrow> bool" where
  "Handlers_can_delete_requests db uid r = handler_exists db uid"

definition requests_using :: "command \<Rightarrow> (database \<Rightarrow> uuid \<Rightarrow> request \<Rightarrow> bool) list" where
  "requests_using cmd =
     (case cmd of
        SELECT \<Rightarrow> [Submitters_can_view_own_requests, Handlers_can_view_all_requests]
      | UPDATE \<Rightarrow> [Handlers_can_update_requests_using]
      | DELETE \<Rightarrow> [Handlers_can_delete_requests]
      | INSERT \<Rightarrow> [])"

definition requests_with_check :: "command \<Rightarrow> (database \<Rightarrow> uuid \<Rightarrow> request \<Rightarrow> bool) list" where
  "requests_with_check cmd =
     (case cmd of
        INSERT \<Rightarrow> [Users_can_create_requests]
      | UPDATE \<Rightarrow> [Handlers_can_update_requests_with_check]
      | _ \<Rightarrow> [])"

definition select_requests :: "database \<Rightarrow> uuid \<Rightarrow> request list" where
  "select_requests db uid = filter (permitted (requests_using SELECT) db uid) (requests db)"

subsection \<open>request_comments\<close>

text \<open>The subquery on \<open>requests\<close> runs as the caller, over the requests the caller may
  select.\<close>

definition own_request_exists :: "database \<Rightarrow> uuid \<Rightarrow> uuid option \<Rightarrow> bool" where
  "own_request_exists db uid request_id =
     list_ex (\<lambda>r. sql_eq (r_id r) request_id \<and> sql_eq (r_submitter_id r) (Some uid))
       (select_requests db uid)"

definition Users_can_create_comments_on_accessible_requests ::
  "database \<Rightarrow> uuid \<Rightarrow> request_comment \<Rightarrow> bool" where
  "Users_can_create_comments_on_accessible_requests db uid c =
     (sql_eq (Some uid) (c_user_id c)
      \<and> (own_request_exists db uid (c_request_id c) \<or> handler_exists db uid))"

definition Users_can_view_comments_on_accessible_requests ::
  "database \<Rightarrow> uuid \<Rightarrow> request_comment \<Rightarrow> bool" where
  "Users_can_view_comments_on_accessible_requests db uid c =
     (own_request_exists db uid (c_request_id c) \<or> handler_exists db uid)"

definition request_comments_using ::
  "command \<Rightarrow> (database \<Rightarrow> uuid \<Rightarrow> request_comment \<Rightarrow> bool) list" where
  "request_comments_using cmd =
     (case cmd of SELECT \<Rightarrow> [Users_can_view_comments_on_accessible_requests] | _ \<Rightarrow> [])"

definition request_comments_with_check ::
  "command \<Rightarrow> (database \<Rightarrow> uuid \<Rightarrow> request_comment \<Rightarrow> bool) list" where
  "request_comments_with_check cmd =
     (case cmd of INSERT \<Rightarrow> [Users_can_create_comments_on_accessible_requests] | _ \<Rightarrow> [])"

section \<open>Statements on user_roles\<close>

record user_role_insert =
  i_ur_id :: "uuid col"
  i_ur_user_id :: "uuid col"
  i_ur_role :: "string col"
  i_ur_created_at :: "timestamptz col"

text \<open>
  \<open>INSERT INTO user_roles\<close> by the caller \<open>uid\<close>: the defaults fill the columns left
  out (\<open>nid\<close> is the value of \<open>gen_random_uuid()\<close>, \<open>now\<close> that of \<open>now()\<close>), the
  policy is checked on the new row, then the constraints of the table. The result is
  the stored row.
\<close>

definition insert_user_role ::
  "database \<Rightarrow> uuid \<Rightarrow> timestamptz \<Rightarrow> uuid \<Rightarrow> user_role_insert \<Rightarrow> db_error + user_role" where
  "insert_user_role db uid now nid ins =
     (let new = \<lparr>ur_id = insert_col (Some nid) (i_ur_id ins),
                 ur_user_id = insert_col None (i_ur_user_id ins),
                 ur_role = insert_col None (i_ur_role ins),
                 ur_created_at = insert_col (Some now) (i_ur_created_at ins)\<rparr>
      in if \<not> permitted (user_roles_with_check INSERT) db uid new then Inl RlsViolation
         else if ur_id new = None \<or> ur_user_id new = None \<or> ur_role new = None
           then Inl NotNullViolation
         else if ur_role new \<noteq> Some ''submitter'' \<and> ur_role new \<noteq> Some ''handler''
           then Inl CheckViolation
         else if list_ex (\<lambda>r. ur_id r = ur_id new) (user_roles db)
              \<or> list_ex (\<lambda>r. ur_user_id r = ur_user_id new \<and> ur_role r = ur_role new)
                   (user_roles db)
           then Inl UniqueViolation
         else if ur_user_id new \<notin> Some ` set (auth_users db) then Inl ForeignKeyViolation
         else Inr new)"

record user_role_update =
  u_ur_id :: "uuid col"
  u_ur_user_id :: "uuid col"
  u_ur_role :: "string col"
  u_ur_created_at :: "timestamptz col"

definition user_roles_set :: "user_role_update \<Rightarrow> user_role \<Rightarrow> user_role" where
  "user_roles_set upd old =
     \<lparr>ur_id = set_col (u_ur_id upd) (ur_id old),
      ur_user_id = set_col (u_ur_user_id upd) (ur_user_id old),
      ur_role = set_col (u_ur_role upd) (ur_role old),
      ur_created_at = set_col (u_ur_created_at upd) (ur_created_at old)\<rparr>"

text \<open>The constraints of \<open>user_roles\<close> on a whole table: the first one violated.\<close>

definition user_roles_violation :: "database \<Rightarrow> user_role list \<Rightarrow> db_error option" where
  "user_roles_violation db tbl =
     (if list_ex (\<lambda>r. ur_id r = None \<or> ur_user_id r = None \<or> ur_role r = None) tbl
        then Some NotNullViolation
      else if list_ex (\<lambda>r. ur_role r \<noteq> Some ''submitter'' \<and> ur_role r \<noteq> Some ''handler'') tbl
        then Some CheckViolation
      else if \<not> distinct (map ur_id tbl) \<or> \<not> distinct (map (\<lambda>r. (ur_user_id r, ur_role r)) tbl)
        then Some UniqueViolation
      else if list_ex (\<lambda>r. ur_user_id r \<notin> Some ` set (auth_users db)) tbl
        then Some ForeignKeyViolation
      else None)"

text \<open>
  \<open>UPDATE user_roles SET ... WHERE wh\<close> by the caller: the rows it reaches are those of
  the \<open>WHERE\<close> clause that pass the policies of \<open>SELECT\<close> and of \<open>UPDATE\<close>; their new
  versions have to pass the check of \<open>UPDATE\<close> and the constraints. The result is the
  table after the statement.
\<close>

definition update_user_roles ::
  "database \<Rightarrow> uuid \<Rightarrow> (user_role \<Rightarrow> bool) \<Rightarrow> user_role_update \<Rightarrow> db_error + user_role list" where
  "update_user_roles db uid wh upd =
     (let reached = (\<lambda>r. wh r \<and> permitted (user_roles_using SELECT) db uid r
                           \<and> permitted (user_roles_using UPDATE) db uid r);
          tbl = map (\<lambda>r. if reached r then user_roles_set upd r else r) (user_roles db)
      in if \<not> list_ex reached (user_roles db) then Inr (user_roles db)
         else if list_ex (\<lambda>r. reached r
                    \<and> \<not> permitted (user_roles_with_check UPDATE) db uid (user_roles_set upd r))
                  (user_roles db)
           then Inl RlsViolation
         else (case user_roles_violation db tbl of Some e \<Rightarrow> Inl e | None \<Rightarrow> Inr tbl))"

definition delete_user_roles :: "database \<Rightarrow> uuid \<Rightarrow> (user_role \<Rightarrow> bool) \<Rightarrow> user_role list" where
  "delete_user_roles db uid wh =
     filter (\<lambda>r. \<not> (wh r \<and> permitted (user_roles_using SELECT) db uid r
                       \<and> permitted (user_roles_using DELETE) db uid r))
       (user_roles db)"

text \<open>One statement on \<open>user_roles\<close> by one caller; a rejected statement leaves the
  table as it was.\<close>

datatype role_op =
    InsertRole user_role_insert
  | UpdateRoles "user_role \<Rightarrow> bool" user_role_update
  | DeleteRoles "user_role \<Rightarrow> bool"

record event =
  ev_caller :: uuid
  ev_now :: timestamptz
  ev_new_id :: uuid
  ev_op :: role_op

definition user_roles_step :: "database \<Rightarrow> event \<Rightarrow> database" where
  "user_roles_step db e =
     (case ev_op e of
        InsertRole ins \<Rightarrow>
          (case insert_user_role db (ev_caller e) (ev_now e) (ev_new_id e) ins of
             Inl err \<Rightarrow> db
           | Inr new \<Rightarrow> db\<lparr>user_roles := user_roles db @ [new]\<rparr>)
      | UpdateRoles wh upd \<Rightarrow>
          (case update_user_roles db (ev_caller e) wh upd of
             Inl err \<Rightarrow> db
           | Inr tbl \<Rightarrow> db\<lparr>user_roles := tbl\<rparr>)
      | DeleteRoles wh \<Rightarrow> db\<lparr>user_roles := delete_user_roles db (ev_caller e) wh\<rparr>)"

fun run :: "database \<Rightarrow> event list \<Rightarrow> database" where
  "run db [] = db"
| "run db (e # es) = run (user_roles_step db e) es"

text \<open>The roles the policies see for a user: those of the role rows of the user that
  the subquery of a policy, run as that user, ranges over.\<close>

definition roles_seen :: "database \<Rightarrow> uuid \<Rightarrow> string option set" where
  "roles_seen db u =
     set (map ur_role (filter (\<lambda>r. sql_eq (ur_user_id r) (Some u)) (select_user_roles db u)))"

text \<open>The caller holds a role row, read off the table itself.\<close>

definition holds_role :: "database \<Rightarrow> uuid \<Rightarrow> string \<Rightarrow> bool" where
  "holds_role db u role =
     list_ex (\<lambda>r. ur_user_id r = Some u \<and> ur_role r = Some role) (user_roles db)"

text \<open>
  \<open>signUp\<close>: the identity provider creates the user, then the role chosen in the form
  is inserted as that user; the result of the insert is not looked at.
\<close>

definition signUp :: "database \<Rightarrow> timestamptz \<Rightarrow> uuid \<Rightarrow> uuid \<Rightarrow> string \<Rightarrow> database" where
  "signUp db now nid user_id role =
     user_roles_step (db\<lparr>auth_users := user_id # auth_users db\<rparr>)
       \<lparr>ev_caller = user_id, ev_now = now, ev_new_id = nid,
        ev_op = InsertRole \<lparr>i_ur_id = Omitted, i_ur_user_id = Val user_id,
                            i_ur_role = Val role, i_ur_created_at = Omitted\<rparr>\<rparr>"

section \<open>Statements on requests\<close>

record request_insert =
  i_id :: "uuid col"
  i_title :: "string col"
  i_description :: "string col"
  i_category :: "string col"
  i_priority :: "string col"
  i_status :: "string col"
  i_submitter_id :: "uuid col"
  i_submitter_name :: "string col"
  i_assigned_unit :: "string col"
  i_assigned_handler :: "string col"
  i_ai_response :: "string col"
  i_created_at :: "timestamptz col"
  i_updated_at :: "timestamptz col"
  i_resolved_at :: "timestamptz col"
  i_deadline :: "timestamptz col"

definition requests_not_null :: "request \<Rightarrow> bool" where
  "requests_not_null r =
     (r_id r \<noteq> None \<and> r_title r \<noteq> None \<and> r_description r \<noteq> None \<and> r_category r \<noteq> None
      \<and> r_priority r \<noteq> None \<and> r_status r \<noteq> None \<and> r_submitter_id r \<noteq> None
      \<and> r_submitter_name r \<noteq> None)"

text \<open>
  \<open>INSERT INTO requests\<close> by the caller \<open>uid\<close>. The table has no trigger on insert:
  the row is the statement's columns and the defaults of the others. The result is the
  stored row.
\<close>

definition insert_request ::
  "database \<Rightarrow> uuid \<Rightarrow> timestamptz \<Rightarrow> uuid \<Rightarrow> request_insert \<Rightarrow> db_error + request" where
  "insert_request db uid now nid ins =
     (let new = \<lparr>r_id = insert_col (Some nid) (i_id ins),
                 r_title = insert_col None (i_title ins),
                 r_description = insert_col None (i_description ins),
                 r_category = insert_col None (i_category ins),
                 r_priority = insert_col (Some ''Medium'') (i_priority ins),
                 r_status = insert_col (Some ''Received'') (i_status ins),
                 r_submitter_id = insert_col None (i_submitter_id ins),
                 r_submitter_name = insert_col None (i_submitter_name ins),
                 r_assigned_unit = insert_col (Some []) (i_assigned_unit ins),
                 r_assigned_handler = insert_col (Some []) (i_assigned_handler ins),
                 r_ai_response = insert_col (Some []) (i_ai_response ins),
                 r_created_at = insert_col (Some now) (i_created_at ins),
                 r_updated_at = insert_col (Some now) (i_updated_at ins),
                 r_resolved_at = insert_col None (i_resolved_at ins),
                 r_deadline = insert_col None (i_deadline ins)\<rparr>
      in if \<not> permitted (requests_with_check INSERT) db uid new then Inl RlsViolation
         else if \<not> requests_not_null new then Inl NotNullViolation
         else if list_ex (\<lambda>r. r_id r = r_id new) (requests db) then Inl UniqueViolation
         else if r_submitter_id new \<notin> Some ` set (auth_users db) then Inl ForeignKeyViolation
         else Inr new)"








section \<open>Statements on request_comments\<close>

record request_comment_insert =
  i_c_id :: "uuid col"
  i_c_request_id :: "uuid col"
  i_c_user_id :: "uuid col"
  i_c_user_name :: "string col"
  i_c_comment :: "string col"
  i_c_created_at :: "timestamptz col"

definition insert_request_comment ::
  "database \<Rightarrow> uuid \<Rightarrow> timestamptz \<Rightarrow> uuid \<Rightarrow> request_comment_insert
     \<Rightarrow> db_error + request_comment" where
  "insert_request_comment db uid now nid ins =
     (let new = \<lparr>c_id = insert_col (Some nid) (i_c_id ins),
                 c_request_id = insert_col None (i_c_request_id ins),
                 c_user_id = insert_col None (i_c_user_id ins),
                 c_user_name = insert_col None (i_c_user_name ins),
                 c_comment = insert_col None (i_c_comment ins),
                 c_created_at = insert_col (Some now) (i_c_created_at ins)\<rparr>
      in if \<not> permitted (request_comments_with_check INSERT) db uid new then Inl RlsViolation
         else if c_id new = None \<or> c_request_id new = None \<or> c_user_id new = None
                 \<or> c_user_name new = None \<or> c_comment new = None
           then Inl NotNullViolation
         else if list_ex (\<lambda>c. c_id c = c_id new) (request_comments db) then Inl UniqueViolation
         else if \<not> list_ex (\<lambda>r. r_id r = c_request_id new) (requests db)
                 \<or> c_user_id new \<notin> Some ` set (auth_users db)
           then Inl ForeignKeyViolation
         else Inr new)"

text \<open>The caller is the submitter of the parent request, read off the table itself.\<close>

definition owns_request :: "database \<Rightarrow> uuid \<Rightarrow> uuid option \<Rightarrow> bool" where
  "owns_request db u request_id =
     list_ex (\<lambda>r. request_id \<noteq> None \<and> r_id r = request_id \<and> r_submitter_id r = Some u)
       (requests db)"

section \<open>The application\<close>

text \<open>The signed-in user as the forms read it: \<open>user.id\<close>, \<open>user.user_metadata.name\<close>
  and \<open>user.email\<close>, the last two possibly undefined.\<close>

record auth_user =
  u_uid :: uuid
  u_name :: "string option"
  u_email :: "string option"

text \<open>\<open>user.user_metadata.name || user.email\<close> as a column of the statement: an
  undefined value leaves the column out.\<close>

definition display_name :: "auth_user \<Rightarrow> string col" where
  "display_name u =
     (let email = (case u_email u of None \<Rightarrow> Omitted | Some e \<Rightarrow> Val e)
      in case u_name u of
           None \<Rightarrow> email
         | Some n \<Rightarrow> if n = [] then email else Val n)"

text \<open>
  \<open>NewRequestForm.handleSubmit\<close>: the classifier runs on the title and the description,
  and the request is inserted as the signed-in user. \<open>manualCategory\<close> and
  \<open>manualPriority\<close> are the two override fields of the form, empty for
  \<open>Auto-detect\<close>. The result is the stored row, or the error the form shows.
\<close>

definition handleSubmit ::
  "database \<Rightarrow> timestamptz \<Rightarrow> uuid \<Rightarrow> auth_user \<Rightarrow> string \<Rightarrow> string \<Rightarrow> string \<Rightarrow> string
     \<Rightarrow> db_error + request" where
  "handleSubmit db now nid u ttl descr manualCategory manualPriority =
     (let a = analyzeRequest ttl descr
      in insert_request db (u_uid u) now nid
           \<lparr>i_id = Omitted,
            i_title = Val ttl,
            i_description = Val descr,
            i_category = Val (or_else (Some manualCategory) (category a)),
            i_priority = Val (or_else (Some manualPriority) (priority a)),
            i_status = Val ''Received'',
            i_submitter_id = Val (u_uid u),
            i_submitter_name = display_name u,
            i_assigned_unit = Val (assignedUnit a),
            i_assigned_handler = Omitted,
            i_ai_response = Val (aiResponse a),
            i_created_at = Omitted,
            i_updated_at = Omitted,
            i_resolved_at = Omitted,
            i_deadline = Omitted\<rparr>)"



subsection \<open>Role resolution and routing\<close>

datatype postgrest_error = PGRST116

text \<open>
  \<open>maybeSingle()\<close> of the database client, as its documentation gives it: no row is
  null data and no error, one row is that row, more rows are null data and an error.
\<close>

definition maybeSingle :: "'a list \<Rightarrow> 'a option \<times> postgrest_error option" where
  "maybeSingle rows =
     (case rows of
        [] \<Rightarrow> (None, None)
      | [r] \<Rightarrow> (Some r, None)
      | _ \<Rightarrow> (None, Some PGRST116))"

text \<open>
  \<open>fetchUserRole\<close>: the query runs as the signed-in user \<open>userId\<close>, selects the column
  \<open>role\<close> of the role rows of that user, and only its data is read:
  \<open>data?.role ?? 'submitter'\<close>.
\<close>

definition role_query :: "database \<Rightarrow> uuid \<Rightarrow> string option option \<times> postgrest_error option" where
  "role_query db userId =
     maybeSingle
       (map ur_role
          (filter (\<lambda>r. sql_eq (ur_user_id r) (Some userId)) (select_user_roles db userId)))"

definition fetchUserRole :: "database \<Rightarrow> uuid \<Rightarrow> string" where
  "fetchUserRole db userId =
     (let (data, err) = role_query db userId
      in case data of
           None \<Rightarrow> ''submitter''
         | Some role \<Rightarrow> (case role of None \<Rightarrow> ''submitter'' | Some ro \<Rightarrow> ro))"

text \<open>A role row exists for the identity, read off the table itself.\<close>

definition has_role_row :: "database \<Rightarrow> uuid \<Rightarrow> bool" where
  "has_role_row db u = list_ex (\<lambda>r. ur_user_id r = Some u) (user_roles db)"

record auth_state =
  user :: "auth_user option"
  userRole :: "string option"
  loading :: bool

text \<open>The handler of \<open>onAuthStateChange\<close>, run to its end with the session it is given.\<close>

definition onAuthStateChange :: "database \<Rightarrow> auth_user option \<Rightarrow> auth_state \<Rightarrow> auth_state" where
  "onAuthStateChange db session st =
     (case session of
        Some u \<Rightarrow> st\<lparr>user := Some u, userRole := Some (fetchUserRole db (u_uid u)),
                    loading := False\<rparr>
      | None \<Rightarrow> st\<lparr>user := None, userRole := None, loading := False\<rparr>)"

datatype view = LoadingScreen | Auth | HandlerView | SubmitterView

definition AppContent :: "auth_state \<Rightarrow> view" where
  "AppContent st =
     (if loading st then LoadingScreen
      else if user st = None then Auth
      else if userRole st = Some ''handler'' then HandlerView
      else SubmitterView)"

section \<open>Example data\<close>

definition empty_db :: database where
  "empty_db = \<lparr>auth_users = [], requests = [], request_comments = [], user_roles = []\<rparr>"

text \<open>Alice is a handler, Bob a submitter with one request, Carol has no role row.\<close>

definition example_db :: database where
  "example_db =
     \<lparr>auth_users = [''alice'', ''bob'', ''carol''],
      requests =
        [\<lparr>r_id = Some ''req-1'', r_title = Some ''Chair'', r_description = Some ''Loose bolt'',
          r_category = Some ''Equipment and Furniture'', r_priority = Some ''Medium'',
          r_status = Some ''Received'', r_submitter_id = Some ''bob'',
          r_submitter_name = Some ''Bob'', r_assigned_unit = Some ''Procurement Division'',
          r_assigned_handler = Some [], r_ai_response = Some [], r_created_at = Some 1,
          r_updated_at = Some 1, r_resolved_at = None, r_deadline = None\<rparr>],
      request_comments = [],
      user_roles =
        [\<lparr>ur_id = Some ''role-1'', ur_user_id = Some ''alice'', ur_role = Some ''handler'',
          ur_created_at = Some 0\<rparr>,
         \<lparr>ur_id = Some ''role-2'', ur_user_id = Some ''bob'', ur_role = Some ''submitter'',
          ur_created_at = Some 0\<rparr>]\<rparr>"

definition example_request :: request where
  "example_request = hd (requests example_db)"

definition alice :: auth_user where
  "alice = \<lparr>u_uid = ''alice'', u_name = Some ''Alice'', u_email = Some ''alice@example.org''\<rparr>"

definition bob :: auth_user where
  "bob = \<lparr>u_uid = ''bob'', u_name = Some ''Bob'', u_email = Some ''bob@example.org''\<rparr>"

definition carol :: auth_user where
  "carol = \<lparr>u_uid = ''carol'', u_name = None, u_email = Some ''carol@example.org''\<rparr>"

definition example_comment :: "uuid \<Rightarrow> request_comment_insert" where
  "example_comment u =
     \<lparr>i_c_id = Omitted, i_c_request_id = Val ''req-1'', i_c_user_id = Val u,
      i_c_user_name = Val ''name'', i_c_comment = Val ''Any news?'', i_c_created_at = Omitted\<rparr>"

text \<open>Bob signs up as a submitter, and later inserts a handler row for himself.\<close>

definition bob_signed_up :: database where
  "bob_signed_up = signUp empty_db 1 ''role-1'' ''bob'' ''submitter''"

definition handler_row_of_bob :: user_role_insert where
  "handler_row_of_bob =
     \<lparr>i_ur_id = Omitted, i_ur_user_id = Val ''bob'', i_ur_role = Val ''handler'',
      i_ur_created_at = Omitted\<rparr>"

definition bob_adds_handler :: event where
  "bob_adds_handler =
     \<lparr>ev_caller = ''bob'', ev_now = 2, ev_new_id = ''role-2'',
      ev_op = InsertRole handler_row_of_bob\<rparr>"

definition bob_with_both_roles :: database where
  "bob_with_both_roles = run bob_signed_up [bob_adds_handler]"







text \<open>The row that the creation form stores for the title \<open>Desk\<close> under the category override
  \<open>Safety and Fire Protection\<close>.\<close>

definition desk_request :: request where
  "desk_request =
     \<lparr>r_id = Some ''req-2'', r_title = Some ''Desk'', r_description = Some ''Sharp edge'',
      r_category = Some ''Safety and Fire Protection'', r_priority = Some ''Medium'',
      r_status = Some ''Received'', r_submitter_id = Some ''bob'',
      r_submitter_name = Some ''Bob'', r_assigned_unit = Some ''Procurement Division'',
      r_assigned_handler = Some [],
      r_ai_response = Some (generateResponse ''Desk'' ''Equipment and Furniture''),
      r_created_at = Some 9, r_updated_at = Some 9, r_resolved_at = None, r_deadline = None\<rparr>"

section \<open>Properties of the classifier\<close>

lemma matches_here_append: "matches_here p ts \<Longrightarrow> matches_here p (ts @ us)"
  by (induction p ts rule: matches_here.induct) auto

lemma occurs_append: "occurs p ts \<Longrightarrow> occurs p (ts @ us)"
proof (induction ts)
  case Nil
  then have "p = []" by (cases p) auto
  then show ?case by (cases us) auto
next
  case (Cons t ts)
  then show ?case using matches_here_append[of p "t # ts" us] by auto
qed

lemma match_any_append: "match_any ks ts \<Longrightarrow> match_any ks (ts @ us)"
  by (auto simp: match_any_def list_ex_iff intro: occurs_append)

lemma analyzeRequest_fields:
  "category (analyzeRequest ttl descr) = categorizeRequest (toLowerCase (ttl @ '' '' @ descr))"
  "priority (analyzeRequest ttl descr) = determinePriority (toLowerCase (ttl @ '' '' @ descr))"
  "assignedUnit (analyzeRequest ttl descr) = getAssignedUnit (category (analyzeRequest ttl descr))"
  "aiResponse (analyzeRequest ttl descr) = generateResponse ttl (category (analyzeRequest ttl descr))"
  by (simp_all add: analyzeRequest_def Let_def)

lemma categorizeRequest_first_match:
  "categorizeRequest txt = spec_first_match spec_category_rules ''Other'' txt"
  by (simp add: categorizeRequest_def spec_category_rules_def)

lemma categorizeRequest_it:
  "match_any it_keywords txt \<Longrightarrow> categorizeRequest txt = ''IT and Technical Support''"
  by (simp add: categorizeRequest_def)

lemma fire_alarm_lower:
  "toLowerCase ''fire alarm and a slow computer'' = ''fire alarm and a slow computer''"
  by code_simp

lemma fire_alarm_it: "match_any it_keywords ''fire alarm and a slow computer''"
  by code_simp

lemma fire_alarm_safety: "match_any safety_keywords ''fire alarm and a slow computer''"
  by code_simp

lemma fire_alarm_text:
  "toLowerCase (''fire alarm and a slow computer'' @ '' '' @ descr)
     = ''fire alarm and a slow computer'' @ toLowerCase ('' '' @ descr)"
  using fire_alarm_lower by (simp add: toLowerCase_def)

text \<open>
  C7. Whatever the description, the title \<open>fire alarm and a slow computer\<close> is
  classified as \<open>IT and Technical Support\<close>, although its text matches the keywords of
  Safety as well: the category is that of the first matching rule in the order IT,
  Facilities, Equipment, Safety, HR, with \<open>Other\<close> when none matches, over the
  lower-cased title, a space and the description; a text matching the IT keywords is
  IT whatever else it matches.
\<close>

theorem it_rule_checked_first:
  "category (analyzeRequest ''fire alarm and a slow computer'' descr) = ''IT and Technical Support''
   \<and> match_any safety_keywords (toLowerCase (''fire alarm and a slow computer'' @ '' '' @ descr))
   \<and> category (analyzeRequest ttl descr)
       = spec_first_match spec_category_rules ''Other'' (toLowerCase (ttl @ '' '' @ descr))
   \<and> (match_any it_keywords txt \<longrightarrow> categorizeRequest txt = ''IT and Technical Support'')"
proof (intro conjI impI)
  have "match_any it_keywords (toLowerCase (''fire alarm and a slow computer'' @ '' '' @ descr))"
    unfolding fire_alarm_text using fire_alarm_it by (rule match_any_append)
  then show "category (analyzeRequest ''fire alarm and a slow computer'' descr)
      = ''IT and Technical Support''"
    unfolding analyzeRequest_fields by (rule categorizeRequest_it)
  show "match_any safety_keywords (toLowerCase (''fire alarm and a slow computer'' @ '' '' @ descr))"
    unfolding fire_alarm_text using fire_alarm_safety by (rule match_any_append)
  show "category (analyzeRequest ttl descr)
      = spec_first_match spec_category_rules ''Other'' (toLowerCase (ttl @ '' '' @ descr))"
    unfolding analyzeRequest_fields by (rule categorizeRequest_first_match)
  show "categorizeRequest txt = ''IT and Technical Support''" if "match_any it_keywords txt"
    using that by (rule categorizeRequest_it)
qed

theorem it_rule_checked_first_witness:
  "category (analyzeRequest ''fire alarm and a slow computer'' ''...'') = ''IT and Technical Support''
   \<and> match_any it_keywords ''fire alarm and a slow computer''
   \<and> match_any safety_keywords ''fire alarm and a slow computer''
   \<and> categorizeRequest ''fire alarm and a slow computer'' = ''IT and Technical Support''"
  using it_rule_checked_first[of "''...''" "[]" "''fire alarm and a slow computer''"]
    fire_alarm_it fire_alarm_safety
  by blast

lemma toLowerCase_whitespace: "is_whitespace c \<Longrightarrow> toLowerCase_char c = c"
  by (auto simp: is_whitespace_def toLowerCase_char_def Let_def)

lemma Canonicalize_whitespace:
  "is_whitespace c \<Longrightarrow> Canonicalize c < 65 \<or> Canonicalize c = 160"
  by (auto simp: is_whitespace_def Canonicalize_def Let_def)

lemma occurs_whitespace:
  assumes "list_all is_whitespace ts" and "starts_with_letter k"
  shows "\<not> occurs k ts"
  using assms
proof (induction ts)
  case Nil
  then show ?case by (cases k) (auto simp: starts_with_letter_def)
next
  case (Cons t ts)
  then obtain p ps where k: "k = p # ps" and p: "65 \<le> Canonicalize p" "Canonicalize p \<le> 90"
    by (cases k) (auto simp: starts_with_letter_def)
  from Cons.prems have "is_whitespace t" by simp
  then have "Canonicalize p \<noteq> Canonicalize t"
    using Canonicalize_whitespace[of t] p by auto
  then show ?case using Cons k by simp
qed

lemma match_any_whitespace:
  assumes "list_all is_whitespace ts" and "list_all starts_with_letter ks"
  shows "\<not> match_any ks ts"
  using assms occurs_whitespace by (auto simp: match_any_def list_ex_iff list_all_iff)

lemma keywords_start_with_letter:
  "list_all starts_with_letter it_keywords"
  "list_all starts_with_letter facilities_keywords"
  "list_all starts_with_letter equipment_keywords"
  "list_all starts_with_letter safety_keywords"
  "list_all starts_with_letter hr_keywords"
  "list_all starts_with_letter critical_keywords"
  "list_all starts_with_letter high_keywords"
  "list_all starts_with_letter low_keywords"
  by code_simp+

lemma whitespace_text:
  assumes "list_all is_whitespace ttl" and "list_all is_whitespace descr"
  shows "list_all is_whitespace (toLowerCase (ttl @ '' '' @ descr))"
proof -
  have sp: "is_whitespace CHR '' ''" by (simp add: is_whitespace_def)
  have "list_all is_whitespace (ttl @ '' '' @ descr)" using assms sp by simp
  moreover have "toLowerCase xs = xs" if "list_all is_whitespace xs" for xs
    using that by (simp add: toLowerCase_def list_all_iff map_idI toLowerCase_whitespace)
  ultimately show ?thesis by simp
qed

lemma categorizeRequest_whitespace:
  "list_all is_whitespace txt \<Longrightarrow> categorizeRequest txt = ''Other''"
  by (simp add: categorizeRequest_def match_any_whitespace keywords_start_with_letter)

lemma determinePriority_whitespace:
  "list_all is_whitespace txt \<Longrightarrow> determinePriority txt = ''Medium''"
  by (simp add: determinePriority_def match_any_whitespace keywords_start_with_letter)

lemma getAssignedUnit_Other: "getAssignedUnit ''Other'' = ''General Support''"
  by (simp add: getAssignedUnit_def units_def or_else_def)

lemma categorizeRequest_range: "categorizeRequest txt \<in> set CATEGORIES"
  by (simp add: categorizeRequest_def CATEGORIES_def)

lemma determinePriority_range: "determinePriority txt \<in> set PRIORITIES"
  by (simp add: determinePriority_def PRIORITIES_def)

lemma getAssignedUnit_range: "cat \<in> set CATEGORIES \<Longrightarrow> getAssignedUnit cat \<in> snd ` set units"
  by (auto simp: CATEGORIES_def getAssignedUnit_def units_def or_else_def)

lemma generateResponse_nonempty: "cat \<in> set CATEGORIES \<Longrightarrow> generateResponse ttl cat \<noteq> []"
  by (auto simp: CATEGORIES_def generateResponse_def responses_def or_else_def)

lemma whitespace_analysis:
  assumes "list_all is_whitespace ttl" and "list_all is_whitespace descr"
  shows "category (analyzeRequest ttl descr) = ''Other''"
    and "priority (analyzeRequest ttl descr) = ''Medium''"
    and "assignedUnit (analyzeRequest ttl descr) = ''General Support''"
proof -
  note ws = whitespace_text[OF assms]
  show c: "category (analyzeRequest ttl descr) = ''Other''"
    unfolding analyzeRequest_fields using ws by (rule categorizeRequest_whitespace)
  show "priority (analyzeRequest ttl descr) = ''Medium''"
    unfolding analyzeRequest_fields using ws by (rule determinePriority_whitespace)
  show "assignedUnit (analyzeRequest ttl descr) = ''General Support''"
    unfolding analyzeRequest_fields(3) c by (rule getAssignedUnit_Other)
qed

lemma categorizeRequest_Other_iff:
  "categorizeRequest txt = ''Other'' \<longleftrightarrow> no_category_keyword txt"
  by (simp add: categorizeRequest_def no_category_keyword_def)

lemma determinePriority_Medium_iff:
  "determinePriority txt = ''Medium'' \<longleftrightarrow> no_priority_keyword txt"
  by (simp add: determinePriority_def no_priority_keyword_def)

lemma unmatched_analysis:
  "category (analyzeRequest t d) = ''Other''
     \<longleftrightarrow> no_category_keyword (toLowerCase (t @ '' '' @ d))"
  "priority (analyzeRequest t d) = ''Medium''
     \<longleftrightarrow> no_priority_keyword (toLowerCase (t @ '' '' @ d))"
  "no_category_keyword (toLowerCase (t @ '' '' @ d))
     \<Longrightarrow> assignedUnit (analyzeRequest t d) = ''General Support''"
proof -
  show c: "category (analyzeRequest t d) = ''Other''
     \<longleftrightarrow> no_category_keyword (toLowerCase (t @ '' '' @ d))"
    unfolding analyzeRequest_fields by (rule categorizeRequest_Other_iff)
  show "priority (analyzeRequest t d) = ''Medium''
     \<longleftrightarrow> no_priority_keyword (toLowerCase (t @ '' '' @ d))"
    unfolding analyzeRequest_fields by (rule determinePriority_Medium_iff)
  show "assignedUnit (analyzeRequest t d) = ''General Support''"
    if "no_category_keyword (toLowerCase (t @ '' '' @ d))"
    using that c analyzeRequest_fields(3)[of t d] getAssignedUnit_Other by simp
qed

lemma hello_world_unmatched:
  "no_category_keyword (toLowerCase (''hello'' @ '' '' @ ''world''))"
  "no_priority_keyword (toLowerCase (''hello'' @ '' '' @ ''world''))"
  by code_simp+

text \<open>
  C8. The classifier applied to an empty title and an empty description gives the
  category \<open>Other\<close>, the priority \<open>Medium\<close> and the unit \<open>General Support\<close>, and so does
  every title and description made of white space only. On every input the category is
  \<open>Other\<close> exactly when no keyword of a category rule occurs in the text, with the unit
  \<open>General Support\<close> then, and the priority is \<open>Medium\<close> exactly when no keyword of a
  priority rule occurs in it. On every input the classifier returns a result: a
  category and a priority of the fixed lists, the unit of that category in the table,
  and a response that is not empty.
\<close>

theorem classifier_total_with_fallbacks:
  "category (analyzeRequest [] []) = ''Other''
   \<and> priority (analyzeRequest [] []) = ''Medium''
   \<and> assignedUnit (analyzeRequest [] []) = ''General Support''
   \<and> (list_all is_whitespace ttl \<and> list_all is_whitespace descr \<longrightarrow>
        category (analyzeRequest ttl descr) = ''Other''
        \<and> priority (analyzeRequest ttl descr) = ''Medium''
        \<and> assignedUnit (analyzeRequest ttl descr) = ''General Support'')
   \<and> (category (analyzeRequest t d) = ''Other''
        \<longleftrightarrow> no_category_keyword (toLowerCase (t @ '' '' @ d)))
   \<and> (priority (analyzeRequest t d) = ''Medium''
        \<longleftrightarrow> no_priority_keyword (toLowerCase (t @ '' '' @ d)))
   \<and> (no_category_keyword (toLowerCase (t @ '' '' @ d)) \<longrightarrow>
        assignedUnit (analyzeRequest t d) = ''General Support'')
   \<and> category (analyzeRequest t d) \<in> set CATEGORIES
   \<and> priority (analyzeRequest t d) \<in> set PRIORITIES
   \<and> assignedUnit (analyzeRequest t d) = getAssignedUnit (category (analyzeRequest t d))
   \<and> assignedUnit (analyzeRequest t d) \<in> snd ` set units
   \<and> aiResponse (analyzeRequest t d) \<noteq> []"
proof -
  have e: "list_all is_whitespace []" by simp
  have c: "category (analyzeRequest t d) \<in> set CATEGORIES"
    unfolding analyzeRequest_fields by (rule categorizeRequest_range)
  have p: "priority (analyzeRequest t d) \<in> set PRIORITIES"
    unfolding analyzeRequest_fields by (rule determinePriority_range)
  have u: "assignedUnit (analyzeRequest t d) \<in> snd ` set units"
    unfolding analyzeRequest_fields(3) using c by (rule getAssignedUnit_range)
  have r: "aiResponse (analyzeRequest t d) \<noteq> []"
    unfolding analyzeRequest_fields(4) using c by (rule generateResponse_nonempty)
  show ?thesis
    using whitespace_analysis[OF e e] whitespace_analysis[of ttl descr] c p u r
      analyzeRequest_fields(3)[of t d] unmatched_analysis[of t d]
    by blast
qed

theorem classifier_total_with_fallbacks_witness:
  "list_all is_whitespace '' '' \<and> list_all is_whitespace [CHR 0x09, CHR 0x0A]
   \<and> category (analyzeRequest '' '' [CHR 0x09, CHR 0x0A]) = ''Other''
   \<and> priority (analyzeRequest '' '' [CHR 0x09, CHR 0x0A]) = ''Medium''
   \<and> assignedUnit (analyzeRequest '' '' [CHR 0x09, CHR 0x0A]) = ''General Support''
   \<and> no_category_keyword (toLowerCase (''hello'' @ '' '' @ ''world''))
   \<and> no_priority_keyword (toLowerCase (''hello'' @ '' '' @ ''world''))
   \<and> category (analyzeRequest ''hello'' ''world'') = ''Other''
   \<and> priority (analyzeRequest ''hello'' ''world'') = ''Medium''
   \<and> assignedUnit (analyzeRequest ''hello'' ''world'') = ''General Support''"
proof -
  have "list_all is_whitespace '' ''" and "list_all is_whitespace [CHR 0x09, CHR 0x0A]"
    by (simp_all add: is_whitespace_def)
  then show ?thesis
    using classifier_total_with_fallbacks[of "'' ''" "[CHR 0x09, CHR 0x0A]" "''hello''" "''world''"]
      hello_world_unmatched
    by blast
qed

section \<open>Properties of the policies\<close>

lemma role_rows:
  "filter (\<lambda>r. sql_eq (ur_user_id r) (Some u)) (select_user_roles db u)
     = filter (\<lambda>r. ur_user_id r = Some u) (user_roles db)"
  by (auto simp: select_user_roles_def permitted_def user_roles_using_def
      Users_can_view_own_roles_def sql_eq_def intro: filter_cong)

lemma handler_exists_iff: "handler_exists db uid = holds_role db uid ''handler''"
  by (auto simp: handler_exists_def holds_role_def select_user_roles_def permitted_def
      user_roles_using_def Users_can_view_own_roles_def sql_eq_def list_ex_iff)

lemma own_request_exists_iff: "own_request_exists db uid rid = owns_request db uid rid"
  by (auto simp: own_request_exists_def owns_request_def select_requests_def permitted_def
      requests_using_def Submitters_can_view_own_requests_def sql_eq_def list_ex_iff)

lemma requests_select_iff:
  "permitted (requests_using SELECT) db uid row
     = (r_submitter_id row = Some uid \<or> holds_role db uid ''handler'')"
  by (auto simp: permitted_def requests_using_def Submitters_can_view_own_requests_def
      Handlers_can_view_all_requests_def sql_eq_def handler_exists_iff)

lemma requests_handler_only:
  "permitted (requests_using UPDATE) db uid row = holds_role db uid ''handler''"
  "permitted (requests_with_check UPDATE) db uid row = holds_role db uid ''handler''"
  "permitted (requests_using DELETE) db uid row = holds_role db uid ''handler''"
  by (simp_all add: permitted_def requests_using_def requests_with_check_def
      Handlers_can_update_requests_using_def Handlers_can_update_requests_with_check_def
      Handlers_can_delete_requests_def handler_exists_iff)

lemma example_roles:
  "holds_role example_db ''alice'' ''handler''"
  "\<not> holds_role example_db ''bob'' ''handler''"
  "\<not> holds_role example_db ''carol'' ''handler''"
  by (simp_all add: holds_role_def example_db_def)

lemma example_owner:
  "owns_request example_db ''bob'' (Some ''req-1'')"
  "\<not> owns_request example_db ''carol'' (Some ''req-1'')"
  "\<not> owns_request example_db ''alice'' (Some ''req-1'')"
  by (simp_all add: owns_request_def example_db_def)

lemma example_submitter: "r_submitter_id example_request = Some ''bob''"
  by (simp add: example_request_def example_db_def)

text \<open>
  C1. For every authenticated caller and every request row: a caller who holds a
  \<open>handler\<close> role row passes the policies of select, of update (on the old and on the
  new row) and of delete for the row; for a caller who holds none, the policies of
  select pass exactly when the caller is the submitter of the row, and those of update
  and delete pass for no row.
\<close>

theorem requests_policies_by_role:
  "(holds_role db uid ''handler'' \<longrightarrow>
      permitted (requests_using SELECT) db uid row
      \<and> permitted (requests_using UPDATE) db uid row
      \<and> permitted (requests_with_check UPDATE) db uid row
      \<and> permitted (requests_using DELETE) db uid row)
   \<and> (\<not> holds_role db uid ''handler'' \<longrightarrow>
      (permitted (requests_using SELECT) db uid row \<longleftrightarrow> r_submitter_id row = Some uid)
      \<and> \<not> permitted (requests_using UPDATE) db uid row
      \<and> \<not> permitted (requests_with_check UPDATE) db uid row
      \<and> \<not> permitted (requests_using DELETE) db uid row)"
  by (simp add: requests_select_iff requests_handler_only)

theorem requests_policies_by_role_witness:
  "holds_role example_db ''alice'' ''handler''
   \<and> permitted (requests_using SELECT) example_db ''alice'' example_request
   \<and> permitted (requests_using UPDATE) example_db ''alice'' example_request
   \<and> permitted (requests_with_check UPDATE) example_db ''alice'' example_request
   \<and> permitted (requests_using DELETE) example_db ''alice'' example_request
   \<and> \<not> holds_role example_db ''bob'' ''handler''
   \<and> permitted (requests_using SELECT) example_db ''bob'' example_request
   \<and> \<not> permitted (requests_using UPDATE) example_db ''bob'' example_request
   \<and> \<not> permitted (requests_using DELETE) example_db ''bob'' example_request
   \<and> \<not> holds_role example_db ''carol'' ''handler''
   \<and> \<not> permitted (requests_using SELECT) example_db ''carol'' example_request"
  using requests_policies_by_role[of example_db "''alice''" example_request]
    requests_policies_by_role[of example_db "''bob''" example_request]
    requests_policies_by_role[of example_db "''carol''" example_request]
    example_roles example_submitter
  by simp

lemma comments_insert_iff:
  "permitted (request_comments_with_check INSERT) db uid c
     = (c_user_id c = Some uid
        \<and> (owns_request db uid (c_request_id c) \<or> holds_role db uid ''handler''))"
  by (auto simp: permitted_def request_comments_with_check_def
      Users_can_create_comments_on_accessible_requests_def sql_eq_def handler_exists_iff
      own_request_exists_iff)

text \<open>
  C6. The insert policy of \<open>request_comments\<close> holds for a new comment exactly when
  the comment carries the caller's own identity as \<open>user_id\<close> and the caller is the
  submitter of the parent request or holds a \<open>handler\<close> role row; an insert by a caller
  who is neither is rejected as a violation of the policy.
\<close>

theorem comment_insert_policy:
  "(permitted (request_comments_with_check INSERT) db uid c \<longleftrightarrow>
      c_user_id c = Some uid
      \<and> (owns_request db uid (c_request_id c) \<or> holds_role db uid ''handler''))
   \<and> (\<not> owns_request db uid (insert_col None (i_c_request_id ins))
        \<and> \<not> holds_role db uid ''handler'' \<longrightarrow>
        insert_request_comment db uid now nid ins = Inl RlsViolation)"
  by (simp add: comments_insert_iff insert_request_comment_def Let_def)

theorem comment_insert_policy_witness:
  "\<not> owns_request example_db ''carol'' (insert_col None (i_c_request_id (example_comment ''carol'')))
   \<and> \<not> holds_role example_db ''carol'' ''handler''
   \<and> insert_request_comment example_db ''carol'' 7 ''c-1'' (example_comment ''carol'')
       = Inl RlsViolation"
proof -
  have "insert_col None (i_c_request_id (example_comment ''carol'')) = Some ''req-1''"
    by (simp add: example_comment_def insert_col_def)
  then show ?thesis
    using comment_insert_policy[of example_db "''carol''" undefined "example_comment ''carol''"
        7 "''c-1''"] example_roles(3) example_owner(2)
    by simp
qed

section \<open>Properties of the role resolution\<close>

lemma role_query_none: "\<not> has_role_row db u \<Longrightarrow> role_query db u = (None, None)"
  by (simp add: role_query_def role_rows has_role_row_def maybeSingle_def list_ex_iff
      filter_empty_conv[THEN iffD2])

text \<open>
  C9. When no role row exists for the identity that signs in, the role the
  application keeps is \<open>submitter\<close> and the view shown is the submitter view, not the
  handler view.
\<close>

theorem no_role_row_routes_to_submitter:
  assumes "\<not> has_role_row db (u_uid u)"
  shows "fetchUserRole db (u_uid u) = ''submitter''
    \<and> userRole (onAuthStateChange db (Some u) st) = Some ''submitter''
    \<and> AppContent (onAuthStateChange db (Some u) st) = SubmitterView
    \<and> AppContent (onAuthStateChange db (Some u) st) \<noteq> HandlerView"
  using role_query_none[OF assms]
  by (simp add: fetchUserRole_def onAuthStateChange_def AppContent_def)

theorem no_role_row_routes_to_submitter_witness:
  "\<not> has_role_row example_db (u_uid carol)
   \<and> fetchUserRole example_db (u_uid carol) = ''submitter''
   \<and> AppContent (onAuthStateChange example_db (Some carol)
        \<lparr>user = None, userRole = None, loading = True\<rparr>) = SubmitterView"
proof -
  have h: "\<not> has_role_row example_db (u_uid carol)"
    by (simp add: has_role_row_def example_db_def carol_def)
  from no_role_row_routes_to_submitter[OF h] h show ?thesis by simp
qed

lemma two_elements:
  assumes "x \<in> set xs" and "y \<in> set xs" and "x \<noteq> y"
  shows "\<exists>a b zs. xs = a # b # zs"
proof (cases xs)
  case Nil
  with assms show ?thesis by simp
next
  case (Cons a ys)
  with assms show ?thesis by (cases ys) auto
qed

lemma role_query_many:
  assumes "holds_role db u ''submitter''" and "holds_role db u ''handler''"
  shows "role_query db u = (None, Some PGRST116)"
proof -
  let ?rows = "filter (\<lambda>r. ur_user_id r = Some u) (user_roles db)"
  from assms obtain r1 r2 where
    "r1 \<in> set ?rows" "r2 \<in> set ?rows"
    "ur_role r1 = Some ''submitter''" "ur_role r2 = Some ''handler''"
    by (auto simp: holds_role_def list_ex_iff)
  moreover from this have "r1 \<noteq> r2" by auto
  ultimately obtain a b zs where "?rows = a # b # zs"
    using two_elements by metis
  then show ?thesis
    by (simp add: role_query_def role_rows maybeSingle_def)
qed

lemma bob_with_both_roles_eq:
  "bob_with_both_roles =
     \<lparr>auth_users = [''bob''], requests = [], request_comments = [],
      user_roles =
        [\<lparr>ur_id = Some ''role-1'', ur_user_id = Some ''bob'', ur_role = Some ''submitter'',
          ur_created_at = Some 1\<rparr>,
         \<lparr>ur_id = Some ''role-2'', ur_user_id = Some ''bob'', ur_role = Some ''handler'',
          ur_created_at = Some 2\<rparr>]\<rparr>"
  by code_simp

text \<open>
  C10. When the user holds a \<open>submitter\<close> and a \<open>handler\<close> role row, the role query at
  sign-in gives null data and an error, the role the application keeps is the default
  \<open>submitter\<close>, and the view shown is the submitter view, not the handler view.
\<close>

theorem both_roles_route_to_submitter:
  assumes "holds_role db (u_uid u) ''submitter''" and "holds_role db (u_uid u) ''handler''"
  shows "role_query db (u_uid u) = (None, Some PGRST116)
    \<and> fetchUserRole db (u_uid u) = ''submitter''
    \<and> AppContent (onAuthStateChange db (Some u) st) = SubmitterView
    \<and> AppContent (onAuthStateChange db (Some u) st) \<noteq> HandlerView"
  using role_query_many[OF assms]
  by (simp add: fetchUserRole_def onAuthStateChange_def AppContent_def)

theorem both_roles_route_to_submitter_witness:
  "holds_role bob_with_both_roles (u_uid bob) ''submitter''
   \<and> holds_role bob_with_both_roles (u_uid bob) ''handler''
   \<and> user_roles_violation bob_with_both_roles (user_roles bob_with_both_roles) = None
   \<and> role_query bob_with_both_roles (u_uid bob) = (None, Some PGRST116)
   \<and> AppContent (onAuthStateChange bob_with_both_roles (Some bob)
        \<lparr>user = None, userRole = None, loading = True\<rparr>) = SubmitterView"
proof -
  have s: "holds_role bob_with_both_roles (u_uid bob) ''submitter''"
    and h: "holds_role bob_with_both_roles (u_uid bob) ''handler''"
    and v: "user_roles_violation bob_with_both_roles (user_roles bob_with_both_roles) = None"
    unfolding bob_with_both_roles_eq
    by (simp_all add: holds_role_def bob_def user_roles_violation_def)
  from both_roles_route_to_submitter[OF s h] s h v show ?thesis by simp
qed

section \<open>Properties of the statements on user_roles\<close>

lemma roles_seen_eq:
  "roles_seen db u = ur_role ` {r \<in> set (user_roles db). ur_user_id r = Some u}"
  by (auto simp: roles_seen_def select_user_roles_def permitted_def user_roles_using_def
      Users_can_view_own_roles_def sql_eq_def)

lemma insert_user_role_own:
  "insert_user_role db uid now nid ins = Inr new \<Longrightarrow> ur_user_id new = Some uid"
  by (auto simp: insert_user_role_def Let_def permitted_def user_roles_with_check_def
      Users_can_insert_own_role_def sql_eq_def split: if_splits)

lemma update_user_roles_unchanged: "update_user_roles db uid wh upd = Inr (user_roles db)"
  by (simp add: update_user_roles_def permitted_def user_roles_using_def list_ex_iff)

lemma delete_user_roles_unchanged: "delete_user_roles db uid wh = user_roles db"
  by (simp add: delete_user_roles_def permitted_def user_roles_using_def)

lemma user_roles_step_cases:
  "user_roles (user_roles_step db e) = user_roles db
   \<or> (\<exists>new. user_roles (user_roles_step db e) = user_roles db @ [new]
         \<and> ur_user_id new = Some (ev_caller e))"
proof (cases "ev_op e")
  case (InsertRole ins)
  then show ?thesis
    by (auto simp: user_roles_step_def dest: insert_user_role_own split: sum.splits)
next
  case (UpdateRoles wh upd)
  then show ?thesis
    by (simp add: user_roles_step_def update_user_roles_unchanged)
next
  case (DeleteRoles wh)
  then show ?thesis
    by (simp add: user_roles_step_def delete_user_roles_unchanged)
qed

lemma step_roles_mono: "roles_seen db u \<subseteq> roles_seen (user_roles_step db e) u"
  using user_roles_step_cases[of db e] by (auto simp: roles_seen_eq)

lemma step_roles_other:
  "ev_caller e \<noteq> u \<Longrightarrow> roles_seen (user_roles_step db e) u = roles_seen db u"
  using user_roles_step_cases[of db e] by (auto simp: roles_seen_eq)

lemma run_roles_mono: "roles_seen db u \<subseteq> roles_seen (run db es) u"
proof (induction es arbitrary: db)
  case Nil
  show ?case by simp
next
  case (Cons e es)
  have "roles_seen db u \<subseteq> roles_seen (user_roles_step db e) u" by (rule step_roles_mono)
  also have "\<dots> \<subseteq> roles_seen (run (user_roles_step db e) es) u" by (rule Cons.IH)
  finally show ?case by simp
qed

lemma run_roles_other:
  "\<forall>e \<in> set es. ev_caller e \<noteq> u \<Longrightarrow> roles_seen (run db es) u = roles_seen db u"
  by (induction es arbitrary: db) (simp_all add: step_roles_other)

text \<open>
  C2, as the code has it. A role row can be inserted only under the caller's own
  identity, and no update and no delete reaches a row of \<open>user_roles\<close>; so along every
  sequence of statements on the table no role leaves the set the policies see for a
  user, and statements of other callers do not change that set. The user's own inserts
  can add to it.
\<close>

theorem user_roles_grow_only:
  "(insert_user_role db uid now nid ins = Inr new \<longrightarrow> ur_user_id new = Some uid)
   \<and> update_user_roles db uid wh upd = Inr (user_roles db)
   \<and> delete_user_roles db uid wh2 = user_roles db
   \<and> roles_seen db u \<subseteq> roles_seen (run db es) u
   \<and> ((\<forall>e \<in> set es. ev_caller e \<noteq> u) \<longrightarrow> roles_seen (run db es) u = roles_seen db u)"
proof (intro conjI impI)
  show "ur_user_id new = Some uid" if "insert_user_role db uid now nid ins = Inr new"
    using that by (rule insert_user_role_own)
  show "update_user_roles db uid wh upd = Inr (user_roles db)"
    by (rule update_user_roles_unchanged)
  show "delete_user_roles db uid wh2 = user_roles db"
    by (rule delete_user_roles_unchanged)
  show "roles_seen db u \<subseteq> roles_seen (run db es) u"
    by (rule run_roles_mono)
  show "roles_seen (run db es) u = roles_seen db u" if "\<forall>e \<in> set es. ev_caller e \<noteq> u"
    using that by (rule run_roles_other)
qed

theorem user_roles_grow_only_witness:
  "insert_user_role bob_signed_up ''bob'' 2 ''role-2'' handler_row_of_bob
     = Inr \<lparr>ur_id = Some ''role-2'', ur_user_id = Some ''bob'', ur_role = Some ''handler'',
            ur_created_at = Some 2\<rparr>
   \<and> ev_caller bob_adds_handler \<noteq> ''alice''
   \<and> roles_seen (run bob_signed_up [bob_adds_handler]) ''alice'' = roles_seen bob_signed_up ''alice''
   \<and> roles_seen bob_signed_up ''bob'' \<subseteq> roles_seen (run bob_signed_up [bob_adds_handler]) ''bob''"
proof -
  have i: "insert_user_role bob_signed_up ''bob'' 2 ''role-2'' handler_row_of_bob
     = Inr \<lparr>ur_id = Some ''role-2'', ur_user_id = Some ''bob'', ur_role = Some ''handler'',
            ur_created_at = Some 2\<rparr>"
    by code_simp
  have c: "\<forall>e \<in> set [bob_adds_handler]. ev_caller e \<noteq> ''alice''"
    by (simp add: bob_adds_handler_def)
  from user_roles_grow_only[of bob_signed_up "''bob''" 2 "''role-2''" handler_row_of_bob
      "\<lparr>ur_id = Some ''role-2'', ur_user_id = Some ''bob'', ur_role = Some ''handler'',
        ur_created_at = Some 2\<rparr>" "\<lambda>r. True" undefined "\<lambda>r. True" "''alice''"
      "[bob_adds_handler]"]
  have "roles_seen (run bob_signed_up [bob_adds_handler]) ''alice'' = roles_seen bob_signed_up ''alice''"
    using c by blast
  moreover from user_roles_grow_only[of bob_signed_up "''bob''" 2 "''role-2''" handler_row_of_bob
      undefined "\<lambda>r. True" undefined "\<lambda>r. True" "''bob''" "[bob_adds_handler]"]
  have "roles_seen bob_signed_up ''bob'' \<subseteq> roles_seen (run bob_signed_up [bob_adds_handler]) ''bob''"
    by blast
  moreover have "ev_caller bob_adds_handler \<noteq> ''alice''"
    using c by simp
  ultimately show ?thesis using i by blast
qed

text \<open>
  C2 as stated fails: Bob, signed up as a submitter, inserts a handler row for
  himself, and from then on the policies see him as a handler.
\<close>

theorem self_escalation_counterexample:
  "roles_seen bob_signed_up ''bob'' = {Some ''submitter''}
   \<and> \<not> handler_exists bob_signed_up ''bob''
   \<and> ev_caller bob_adds_handler = ''bob''
   \<and> roles_seen (run bob_signed_up [bob_adds_handler]) ''bob''
       = {Some ''submitter'', Some ''handler''}
   \<and> handler_exists (run bob_signed_up [bob_adds_handler]) ''bob''
   \<and> roles_seen (run bob_signed_up [bob_adds_handler]) ''bob'' \<noteq> roles_seen bob_signed_up ''bob''"
  by code_simp

section \<open>Properties of the statements on requests\<close>

lemma insert_request_fields:
  assumes "insert_request db uid now nid ins = Inr new"
  shows "r_status new = insert_col (Some ''Received'') (i_status ins)"
    and "r_resolved_at new = insert_col None (i_resolved_at ins)"
    and "r_category new = insert_col None (i_category ins)"
    and "r_priority new = insert_col (Some ''Medium'') (i_priority ins)"
    and "r_assigned_unit new = insert_col (Some []) (i_assigned_unit ins)"
  using assms by (auto simp: insert_request_def Let_def split: if_splits)




















section \<open>Properties of the creation form\<close>

lemma handleSubmit_fields:
  assumes "handleSubmit db now nid u ttl descr mc mp = Inr row"
  shows "r_category row = Some (if mc \<noteq> [] then mc else category (analyzeRequest ttl descr))"
    and "r_priority row = Some (if mp \<noteq> [] then mp else priority (analyzeRequest ttl descr))"
    and "r_assigned_unit row = Some (assignedUnit (analyzeRequest ttl descr))"
  using insert_request_fields(3,4,5)[OF assms[unfolded handleSubmit_def Let_def]]
  by (simp_all add: insert_col_def or_else_def)

lemma handleSubmit_succeeds:
  assumes "u_uid u \<in> set (auth_users db)" and "display_name u \<noteq> Omitted"
    and "\<not> list_ex (\<lambda>r. r_id r = Some nid) (requests db)"
  shows "\<exists>row. handleSubmit db now nid u ttl descr mc mp = Inr row"
proof -
  from assms(2) obtain n where "display_name u = Val n"
    by (cases "display_name u") (auto simp: display_name_def Let_def split: option.splits if_splits)
  then show ?thesis using assms(1,3)
    by (simp add: handleSubmit_def insert_request_def Let_def insert_col_def permitted_def
        requests_with_check_def Users_can_create_requests_def sql_eq_def requests_not_null_def)
qed

lemma example_submit:
  "u_uid bob \<in> set (auth_users example_db)"
  "display_name bob \<noteq> Omitted"
  "\<not> list_ex (\<lambda>r. r_id r = Some ''req-2'') (requests example_db)"
  by (simp_all add: bob_def example_db_def display_name_def)

lemma desk_category:
  "categorizeRequest (toLowerCase (''Desk'' @ '' '' @ ''Sharp edge'')) = ''Equipment and Furniture''"
  by code_simp

lemma getAssignedUnit_table:
  "getAssignedUnit ''IT and Technical Support'' = ''IT Division''"
  "getAssignedUnit ''Facilities and Maintenance'' = ''Technical Division''"
  "getAssignedUnit ''Equipment and Furniture'' = ''Procurement Division''"
  "getAssignedUnit ''Safety and Fire Protection'' = ''Safety Division''"
  "getAssignedUnit ''HR and Staff Matters'' = ''HR Division''"
  "getAssignedUnit ''Other'' = ''General Support''"
  by (simp_all add: getAssignedUnit_def units_def or_else_def)

lemma desk_priority:
  "determinePriority (toLowerCase (''Desk'' @ '' '' @ ''Sharp edge'')) = ''Medium''"
  by code_simp

lemma desk_analysis:
  "analyzeRequest ''Desk'' ''Sharp edge'' =
     \<lparr>category = ''Equipment and Furniture'', priority = ''Medium'',
      aiResponse = generateResponse ''Desk'' ''Equipment and Furniture'',
      assignedUnit = ''Procurement Division''\<rparr>"
  unfolding analyzeRequest_def Let_def desk_category desk_priority getAssignedUnit_table ..

text \<open>
  C4. In the request that the creation form stores, the category is the override of
  the form when that is not empty and the classifier's category otherwise, and the
  priority is the override when that is not empty and the classifier's priority
  otherwise, for every title and description; and the form does store a request when
  the user is known, has a display name, and the generated id is new.
\<close>

theorem manual_override_wins:
  "(handleSubmit db now nid u ttl descr manualCategory manualPriority = Inr row \<longrightarrow>
      r_category row = Some (if manualCategory \<noteq> [] then manualCategory
                             else category (analyzeRequest ttl descr))
      \<and> r_priority row = Some (if manualPriority \<noteq> [] then manualPriority
                               else priority (analyzeRequest ttl descr)))
   \<and> (u_uid u \<in> set (auth_users db) \<and> display_name u \<noteq> Omitted
        \<and> \<not> list_ex (\<lambda>r. r_id r = Some nid) (requests db) \<longrightarrow>
      (\<exists>stored. handleSubmit db now nid u ttl descr manualCategory manualPriority = Inr stored))"
proof (intro conjI impI; (elim conjE)?)
  assume h: "handleSubmit db now nid u ttl descr manualCategory manualPriority = Inr row"
  show "r_category row = Some (if manualCategory \<noteq> [] then manualCategory
                             else category (analyzeRequest ttl descr))"
    using h by (rule handleSubmit_fields(1))
  show "r_priority row = Some (if manualPriority \<noteq> [] then manualPriority
                               else priority (analyzeRequest ttl descr))"
    using h by (rule handleSubmit_fields(2))
next
  assume "u_uid u \<in> set (auth_users db)" "display_name u \<noteq> Omitted"
    "\<not> list_ex (\<lambda>r. r_id r = Some nid) (requests db)"
  then show "\<exists>stored. handleSubmit db now nid u ttl descr manualCategory manualPriority = Inr stored"
    by (rule handleSubmit_succeeds)
qed

theorem manual_override_wins_witness:
  "u_uid bob \<in> set (auth_users example_db) \<and> display_name bob \<noteq> Omitted
   \<and> \<not> list_ex (\<lambda>r. r_id r = Some ''req-2'') (requests example_db)
   \<and> (\<exists>stored. handleSubmit example_db 9 ''req-2'' bob ''Desk'' ''Sharp edge''
          ''Safety and Fire Protection'' ''High'' = Inr stored
        \<and> r_category stored = Some ''Safety and Fire Protection''
        \<and> r_priority stored = Some ''High'')
   \<and> (\<exists>stored. handleSubmit example_db 9 ''req-2'' bob ''Desk'' ''Sharp edge'' [] ''Low''
          = Inr stored
        \<and> r_category stored = Some ''Equipment and Furniture''
        \<and> r_priority stored = Some ''Low'')"
proof -
  note inst = manual_override_wins[of example_db 9 "''req-2''" bob "''Desk''" "''Sharp edge''"]
  from inst[of "''Safety and Fire Protection''" "''High''"] example_submit
  obtain s1 where s1: "handleSubmit example_db 9 ''req-2'' bob ''Desk'' ''Sharp edge''
      ''Safety and Fire Protection'' ''High'' = Inr s1"
    by blast
  from inst[of "''Safety and Fire Protection''" "''High''" s1] s1
  have f1: "r_category s1 = Some ''Safety and Fire Protection''" "r_priority s1 = Some ''High''"
    by simp_all
  from inst[of "[]" "''Low''"] example_submit
  obtain s2 where s2: "handleSubmit example_db 9 ''req-2'' bob ''Desk'' ''Sharp edge'' []
      ''Low'' = Inr s2"
    by blast
  from inst[of "[]" "''Low''" s2] s2
  have f2: "r_category s2 = Some (category (analyzeRequest ''Desk'' ''Sharp edge''))"
    "r_priority s2 = Some ''Low''"
    by simp_all
  from f2(1) have f3: "r_category s2 = Some ''Equipment and Furniture''"
    unfolding analyzeRequest_fields desk_category .
  from s1 f1 s2 f2(2) f3 example_submit show ?thesis by blast
qed

text \<open>
  C5 fails on the code where a category override is given: the stored unit is the one
  of the classifier's category, not the one of the stored category. For the title
  \<open>Desk\<close> with the override \<open>Safety and Fire Protection\<close> the request is stored under
  that category with the unit \<open>Procurement Division\<close>, while the table gives
  \<open>Safety Division\<close> for it.
\<close>

theorem override_keeps_classifier_unit:
  "handleSubmit example_db 9 ''req-2'' bob ''Desk'' ''Sharp edge''
     ''Safety and Fire Protection'' [] = Inr desk_request
   \<and> r_category desk_request = Some ''Safety and Fire Protection''
   \<and> r_assigned_unit desk_request = Some ''Procurement Division''
   \<and> getAssignedUnit ''Safety and Fire Protection'' = ''Safety Division''"
proof -
  have "handleSubmit example_db 9 ''req-2'' bob ''Desk'' ''Sharp edge''
     ''Safety and Fire Protection'' [] = Inr desk_request"
    unfolding handleSubmit_def desk_analysis
    by (simp add: Let_def insert_request_def insert_col_def or_else_def display_name_def bob_def
        example_db_def desk_request_def permitted_def requests_with_check_def
        Users_can_create_requests_def sql_eq_def requests_not_null_def)
  then show ?thesis
    by (simp add: desk_request_def getAssignedUnit_table)
qed

end
